theory Spec2Isabelle
  imports Complex_Main "HOL-Library.Word" "HOL-Library.Char_ord" "HOL-Library.List_Lexorder" "HOL-Library.Multiset"
begin

section \<open>Go values\<close>

subsection \<open>float64\<close>

text \<open>
  A \<open>float64\<close> is either a finite number or one of the three special values of
  IEEE 754. Finite values are idealised as exact reals: rounding to 53 bits, overflow and
  underflow are not modelled, so a statement about a finite result speaks of the
  program only where the rounding of binary64 cannot change it. The theorems of the
  last section that speak of finite results do so on the sensor's range only, raw
  hundredths from -40.00 to 60.00 degrees and from 0 to 100 %; the auxiliary facts
  before them are facts of the idealisation. The special values follow the IEEE rules that Go's operators
  and \<open>math\<close> functions implement. The sign of zero is not modelled: the divisors of
  this program are constants and sums or differences with a positive constant, and such
  a sum or difference, when it is zero, is \<open>+0\<close>; so a finite non-zero number
  divided by zero takes the sign of the dividend.
\<close>

datatype float64 = Fin real | PInf | NInf | NaN

fun fneg :: "float64 \<Rightarrow> float64" where
  "fneg (Fin x) = Fin (- x)"
| "fneg PInf = NInf"
| "fneg NInf = PInf"
| "fneg NaN = NaN"

fun fadd :: "float64 \<Rightarrow> float64 \<Rightarrow> float64" where
  "fadd (Fin x) (Fin y) = Fin (x + y)"
| "fadd NaN _ = NaN"
| "fadd _ NaN = NaN"
| "fadd PInf NInf = NaN"
| "fadd NInf PInf = NaN"
| "fadd PInf _ = PInf"
| "fadd _ PInf = PInf"
| "fadd NInf _ = NInf"
| "fadd _ NInf = NInf"

definition fsub :: "float64 \<Rightarrow> float64 \<Rightarrow> float64" where
  "fsub a b = fadd a (fneg b)"

text \<open>The product of an infinity and a finite number: \<open>NaN\<close> for zero, else an
  infinity with the product of the signs.\<close>

definition infTimes :: "bool \<Rightarrow> real \<Rightarrow> float64" where
  "infTimes positive x =
     (if x = 0 then NaN else if (0 < x) = positive then PInf else NInf)"

fun fmul :: "float64 \<Rightarrow> float64 \<Rightarrow> float64" where
  "fmul (Fin x) (Fin y) = Fin (x * y)"
| "fmul NaN _ = NaN"
| "fmul _ NaN = NaN"
| "fmul PInf (Fin y) = infTimes True y"
| "fmul NInf (Fin y) = infTimes False y"
| "fmul (Fin x) PInf = infTimes True x"
| "fmul (Fin x) NInf = infTimes False x"
| "fmul PInf PInf = PInf"
| "fmul NInf NInf = PInf"
| "fmul PInf NInf = NInf"
| "fmul NInf PInf = NInf"

fun fdiv :: "float64 \<Rightarrow> float64 \<Rightarrow> float64" where
  "fdiv (Fin x) (Fin y) =
     (if y \<noteq> 0 then Fin (x / y)
      else if x = 0 then NaN else if 0 < x then PInf else NInf)"
| "fdiv NaN _ = NaN"
| "fdiv _ NaN = NaN"
| "fdiv (Fin x) PInf = Fin 0"
| "fdiv (Fin x) NInf = Fin 0"
| "fdiv PInf (Fin y) = (if 0 \<le> y then PInf else NInf)"
| "fdiv NInf (Fin y) = (if 0 \<le> y then NInf else PInf)"
| "fdiv PInf PInf = NaN"
| "fdiv PInf NInf = NaN"
| "fdiv NInf PInf = NaN"
| "fdiv NInf NInf = NaN"

text \<open>The comparison \<open>a < b\<close>: false whenever an operand is \<open>NaN\<close>.\<close>

fun fless :: "float64 \<Rightarrow> float64 \<Rightarrow> bool" where
  "fless (Fin x) (Fin y) = (x < y)"
| "fless NaN _ = False"
| "fless _ NaN = False"
| "fless NInf NInf = False"
| "fless NInf _ = True"
| "fless PInf _ = False"
| "fless (Fin x) PInf = True"
| "fless (Fin x) NInf = False"

text \<open>\<open>math.Log\<close>: \<open>Log(+Inf) = +Inf\<close>, \<open>Log(0) = -Inf\<close>, \<open>Log(x < 0) = NaN\<close>,
  \<open>Log(NaN) = NaN\<close>.\<close>

fun Log :: "float64 \<Rightarrow> float64" where
  "Log (Fin x) = (if 0 < x then Fin (ln x) else if x = 0 then NInf else NaN)"
| "Log PInf = PInf"
| "Log NInf = NaN"
| "Log NaN = NaN"

text \<open>\<open>math.Exp\<close>: \<open>Exp(+Inf) = +Inf\<close>, \<open>Exp(-Inf) = 0\<close>, \<open>Exp(NaN) = NaN\<close>.\<close>

fun Exp :: "float64 \<Rightarrow> float64" where
  "Exp (Fin x) = Fin (exp x)"
| "Exp PInf = PInf"
| "Exp NInf = Fin 0"
| "Exp NaN = NaN"

text \<open>
  \<open>math.Round\<close> returns the nearest integer, rounding half away from zero; the special
  values are returned unchanged. The standard library documents it as a faster
  implementation of
  \<^verbatim>\<open>t := Trunc(x); if Abs(x-t) >= 0.5 { return t + Copysign(1, x) }; return t\<close>
  which is what \<open>roundInt\<close> transcribes for finite numbers.
\<close>

definition Trunc :: "real \<Rightarrow> int" where
  "Trunc x = (if 0 \<le> x then \<lfloor>x\<rfloor> else \<lceil>x\<rceil>)"

definition roundInt :: "real \<Rightarrow> int" where
  "roundInt x =
     (let t = Trunc x
      in if 1 / 2 \<le> \<bar>x - of_int t\<bar> then t + (if x < 0 then - 1 else 1) else t)"

fun Round :: "float64 \<Rightarrow> float64" where
  "Round (Fin x) = Fin (of_int (roundInt x))"
| "Round PInf = PInf"
| "Round NInf = NInf"
| "Round NaN = NaN"

section \<open>Derived metrics\<close>

text \<open>\<open>calcDewPoint\<close>: the two constants depend on the sign of the temperature; the
  humidity is divided by 100 and replaced by its logarithm.\<close>

definition calcDewPoint :: "float64 \<Rightarrow> float64 \<Rightarrow> float64" where
  "calcDewPoint hum temp =
     (let const1 = (if fless temp (Fin 0) then Fin 272.186 else Fin 241.2);
          const2 = (if fless temp (Fin 0) then Fin 22.4433 else Fin 17.5043);
          hum1 = fdiv hum (Fin 100);
          hum2 = Log hum1;
          abs_temp = fdiv temp (fadd const1 temp);
          point = fdiv (fadd (fmul const1 hum2) (fmul (fmul const1 const2) abs_temp))
                       (fsub (fsub const2 hum2) (fmul const2 abs_temp))
      in fdiv (Round (fmul point (Fin 10))) (Fin 10))"

definition calcAbsHum :: "float64 \<Rightarrow> float64 \<Rightarrow> float64" where
  "calcAbsHum hum temp =
     (let abs = fdiv (fmul (fmul (Fin 13.2471)
                              (Exp (fdiv (fmul (Fin 17.67) temp) (fadd temp (Fin 243.5)))))
                        hum)
                     (fadd (Fin 273.15) temp)
      in fdiv (Round (fmul abs (Fin 10))) (Fin 1))"

subsection \<open>The dew point and absolute humidity as the specification words them\<close>




definition absoluteHumidity :: "real \<Rightarrow> real \<Rightarrow> real" where
  "absoluteHumidity h t = 13.2471 * exp (17.67 * t / (t + 243.5)) * h / (273.15 + t)"

section \<open>Integers and formatting\<close>

text \<open>\<open>int64\<close> arithmetic on mathematical integers: \<open>int64\<close> wraps a result into
  the signed 64-bit range, \<open>quo\<close> is Go's \<open>/\<close>, which truncates towards zero.\<close>

definition int64 :: "int \<Rightarrow> int" where
  "int64 x = (x + 2 ^ 63) mod 2 ^ 64 - 2 ^ 63"

definition quo :: "int \<Rightarrow> int \<Rightarrow> int" where
  "quo a b = sgn a * sgn b * (\<bar>a\<bar> div \<bar>b\<bar>)"

text \<open>The verb \<open>%d\<close> of \<open>fmt.Sprintf\<close>: decimal digits, with a minus sign for a
  negative number.\<close>

fun digits :: "nat \<Rightarrow> string" where
  "digits n =
     (if n < 10 then [''0123456789'' ! n]
      else digits (n div 10) @ [''0123456789'' ! (n mod 10)])"

declare digits.simps [simp del]

definition sprintD :: "int \<Rightarrow> string" where
  "sprintD n = (if n < 0 then CHR ''-'' # digits (nat (- n)) else digits (nat n))"

definition plural :: "int \<Rightarrow> string \<Rightarrow> string" where
  "plural number part = (if number = 1 then [] else part)"

section \<open>The sensor pipeline\<close>

text \<open>What the query for the latest row and its \<open>Scan\<close> leave behind: the five
  destination fields, and whether \<open>Scan\<close> returned an error. After an error the
  destinations hold Go's zero values, unless \<open>Scan\<close> had assigned the columns before the
  one it failed on.\<close>

record Sample =
  temp :: float64
  humidity :: float64
  battery_mv :: "16 word"
  battery_level :: "8 word"
  timestamp :: string

datatype QueryResult = Scanned Sample | ScanError Sample

fun sample :: "QueryResult \<Rightarrow> Sample" where
  "sample (Scanned s) = s"
| "sample (ScanError s) = s"

fun failed :: "QueryResult \<Rightarrow> bool" where
  "failed (Scanned s) = False"
| "failed (ScanError s) = True"

definition zeroSample :: Sample where
  "zeroSample = \<lparr>temp = Fin 0, humidity = Fin 0, battery_mv = 0, battery_level = 0,
                  timestamp = []\<rparr>"

text \<open>A device's configuration. The database handle is modelled by what its query
  yields in the run at hand.\<close>

record Config =
  Loc :: string
  Db :: QueryResult

text \<open>Go iterates over a map in an unspecified order: a \<open>ConfigMap\<close> is the list of
  its entries in the order of one iteration, its keys distinct.\<close>

type_synonym ConfigMap = "(string \<times> Config) list"

record SensorData =
  Temp :: float64
  Humidity :: float64
  BatteryMV :: "16 word"
  BatteryLevel :: "8 word"
  Timestamp :: string
  DewPoint :: float64
  AbsHum :: float64
  BatteryIcon :: string
  DewPointText :: string
  Mac :: string
  Loc :: string
  TimeRelative :: string

text \<open>The battery icon. \<open>BatteryLevel\<close> is an \<open>int8\<close>, compared as a signed number. The
  chain of tests overwrites the initial \<open>fa-battery-exclamation\<close> in every case.\<close>

definition batteryIcon :: "8 word \<Rightarrow> string" where
  "batteryIcon level =
     (if level <s 5 then ''fa-battery-empty red''
      else if level <s 15 then ''fa-battery-empty yellow''
      else if level <s 35 then ''fa-battery-quarter''
      else if level <s 65 then ''fa-battery-half''
      else if level <s 85 then ''fa-battery-three-quarters''
      else ''fa-battery-full green'')"

text \<open>The label for a difference of Unix seconds.\<close>

definition relativeLabel :: "int \<Rightarrow> string" where
  "relativeLabel diff_seconds =
     (let diff_minutes = quo diff_seconds 60;
          diff_hours = quo diff_minutes 60;
          diff_days = quo diff_hours 24
      in if diff_seconds < 60 then ''Up to date''
         else if diff_minutes < 60 then
           sprintD diff_minutes @ '' Minute'' @ plural diff_minutes ''s'' @ '' ago''
         else if diff_hours < 24 then
           sprintD diff_hours @ '' Hour'' @ plural diff_hours ''s'' @ '' ago''
         else sprintD diff_days @ '' Day'' @ plural diff_days ''s'')"

text \<open>\<open>time.Parse(time.RFC3339, _)\<close> belongs to the standard library; it is the
  parameter \<open>parse\<close>, which yields the Unix seconds of the parsed time or \<open>None\<close> for an
  error. \<open>now\<close> is the value of \<open>time.Now().Unix()\<close>.\<close>

definition timeRelative :: "(string \<Rightarrow> int option) \<Rightarrow> int \<Rightarrow> string \<Rightarrow> string" where
  "timeRelative parse now ts =
     (case parse ts of
        Some unix \<Rightarrow> relativeLabel (int64 (now - unix))
      | None \<Rightarrow> ts)"

text \<open>The body of the loop after the query: the record appended for one device.\<close>

definition derive :: "(string \<Rightarrow> int option) \<Rightarrow> int \<Rightarrow> string \<Rightarrow> Config \<Rightarrow> SensorData" where
  "derive parse now mac config =
     (let s = sample (Db config);
          hum = fdiv (humidity s) (Fin 100);
          tmp = fdiv (temp s) (Fin 100)
      in \<lparr>Temp = tmp, Humidity = hum,
          BatteryMV = battery_mv s, BatteryLevel = battery_level s,
          Timestamp = timestamp s,
          DewPoint = calcDewPoint hum tmp,
          AbsHum = calcAbsHum hum tmp,
          BatteryIcon = batteryIcon (battery_level s),
          DewPointText = (if fless tmp (Fin 0) then ''Freezing point'' else ''Dew point''),
          Mac = mac, Loc = Config.Loc config,
          TimeRelative = timeRelative parse now (timestamp s)\<rparr>)"

text \<open>The response: the status line, unset until something is written, and what was
  written to the body. The output of the template, which is not part of the sources, is
  recorded as the data it was executed on.\<close>

datatype Chunk = Text string | Rendered "SensorData list"

record ResponseWriter =
  status :: "nat option"
  body :: "Chunk list"

definition writeHeader :: "nat \<Rightarrow> ResponseWriter \<Rightarrow> ResponseWriter" where
  "writeHeader code w = (case status w of None \<Rightarrow> w\<lparr>status := Some code\<rparr> | Some _ \<Rightarrow> w)"

definition writeBody :: "Chunk \<Rightarrow> ResponseWriter \<Rightarrow> ResponseWriter" where
  "writeBody c w = (let w' = writeHeader 200 w in w'\<lparr>body := body w' @ [c]\<rparr>)"

text \<open>\<open>http.Error\<close> writes the header with the given code and the message followed
  by a newline.\<close>

definition httpError :: "ResponseWriter \<Rightarrow> string \<Rightarrow> nat \<Rightarrow> ResponseWriter" where
  "httpError w msg code = writeBody (Text (msg @ [CHR 0x0A])) (writeHeader code w)"

text \<open>The loop over the configuration map. \<open>now\<close> gives the clock's value while the
  device of that key is processed. The error of a query is reported to the client and the
  iteration goes on with the fields as \<open>Scan\<close> left them.\<close>

fun collect ::
  "(string \<Rightarrow> int option) \<Rightarrow> (string \<Rightarrow> int) \<Rightarrow> ConfigMap \<Rightarrow>
   ResponseWriter \<times> SensorData list \<Rightarrow> ResponseWriter \<times> SensorData list" where
  "collect parse now [] (w, data) = (w, data)"
| "collect parse now ((mac, config) # rest) (w, data) =
     collect parse now rest
       (if failed (Db config) then httpError w ''Data could not be loaded'' 500 else w,
        data @ [derive parse (now mac) mac config])"

text \<open>\<open>sort.Slice\<close> sorts by the given comparison, with no promise of stability; it is
  modelled by an insertion sort.\<close>

fun insertBy :: "('a \<Rightarrow> 'a \<Rightarrow> bool) \<Rightarrow> 'a \<Rightarrow> 'a list \<Rightarrow> 'a list" where
  "insertBy lessFn x [] = [x]"
| "insertBy lessFn x (y # ys) =
     (if lessFn y x then y # insertBy lessFn x ys else x # y # ys)"

definition sortSlice :: "('a \<Rightarrow> 'a \<Rightarrow> bool) \<Rightarrow> 'a list \<Rightarrow> 'a list" where
  "sortSlice lessFn xs = foldr (insertBy lessFn) xs []"

text \<open>The first part of the handler, the loop followed by the sort: the response so
  far and the data that the template is executed on.\<close>

definition assemble ::
  "(string \<Rightarrow> int option) \<Rightarrow> (string \<Rightarrow> int) \<Rightarrow> ConfigMap \<Rightarrow> ResponseWriter \<Rightarrow>
   ResponseWriter \<times> SensorData list" where
  "assemble parse now configMap w =
     (let (w', data) = collect parse now configMap (w, [])
      in (w', sortSlice (\<lambda>a b. Mac a < Mac b) data))"

text \<open>The handler. The template is read from a file outside the sources: \<open>tmpl\<close> is
  \<open>None\<close> when \<open>template.Must\<close> panics, and otherwise tells whether executing the
  template on the data succeeds. The result is \<open>None\<close> for the panic.\<close>

definition loadSensorData ::
  "(SensorData list \<Rightarrow> bool) option \<Rightarrow> (string \<Rightarrow> int option) \<Rightarrow> (string \<Rightarrow> int) \<Rightarrow>
   ConfigMap \<Rightarrow> ResponseWriter \<Rightarrow> ResponseWriter option" where
  "loadSensorData tmpl parse now configMap w =
     (let (w', data) = assemble parse now configMap w
      in case tmpl of
           None \<Rightarrow> None
         | Some execute \<Rightarrow>
             Some (if execute data then writeBody (Rendered data) w'
                   else httpError w' ''Error rendering data'' 500))"

section \<open>Auxiliary facts\<close>

subsection \<open>Rounding\<close>

lemma roundInt_near: "\<bar>of_int (roundInt x) - x\<bar> \<le> 1 / 2"
  unfolding roundInt_def Trunc_def Let_def by (auto; linarith)

lemma roundInt_tie: "\<bar>of_int (roundInt x) - x\<bar> = 1 / 2 \<Longrightarrow> \<bar>x\<bar> < \<bar>of_int (roundInt x)\<bar>"
  unfolding roundInt_def Trunc_def Let_def by (auto split: if_splits; linarith)

subsection \<open>The dew point on finite numbers\<close>


lemma calcDewPoint_nonpos:
  assumes "h \<le> 0"
  shows "calcDewPoint (Fin h) (Fin t) = NaN"
  using assms unfolding calcDewPoint_def
  by (auto simp: Let_def fsub_def infTimes_def)


subsection \<open>Integers\<close>

lemma sint_percent: "- 128 \<le> p \<Longrightarrow> p < 128 \<Longrightarrow> sint (word_of_int p :: 8 word) = p"
  by (simp add: signed_of_int signed_take_bit_int_eq_self)

lemma quo_nonneg: "0 \<le> a \<Longrightarrow> 0 < b \<Longrightarrow> quo a b = a div b"
  by (cases "a = 0") (simp_all add: quo_def)

subsection \<open>The loop and the sort\<close>

lemma sortSlice_Mac: "sortSlice (\<lambda>a b. Mac a < Mac b) xs = sort_key Mac xs"
proof -
  have ins: "insertBy (\<lambda>a b. Mac a < Mac b) x ys = insort_key Mac x ys" for x ys
    by (induction ys) auto
  show ?thesis unfolding sortSlice_def sort_key_def
    by (induction xs) (simp_all add: ins)
qed

lemma collect_eq:
  "collect parse now cm (w, data) =
     (fold (\<lambda>e w. if failed (Db (snd e)) then httpError w ''Data could not be loaded'' 500
                   else w) cm w,
      data @ map (\<lambda>e. derive parse (now (fst e)) (fst e) (snd e)) cm)"
  by (induction cm arbitrary: w data) auto

lemma Mac_derive [simp]: "Mac (derive parse n mac c) = mac"
  by (simp add: derive_def Let_def)

lemma assemble_snd:
  "snd (assemble parse now cm w) =
     sort_key Mac (map (\<lambda>e. derive parse (now (fst e)) (fst e) (snd e)) cm)"
  by (simp add: assemble_def collect_eq sortSlice_Mac)

lemma assemble_fst:
  "fst (assemble parse now cm w) =
     fold (\<lambda>e w. if failed (Db (snd e)) then httpError w ''Data could not be loaded'' 500
                  else w) cm w"
  by (simp add: assemble_def collect_eq)

lemma fold_report_body:
  "body (fold (\<lambda>e w. if failed (Db (snd e)) then httpError w msg 500 else w) cm w) =
     body w @ replicate (length (filter (\<lambda>e. failed (Db (snd e))) cm))
                (Text (msg @ [CHR 0x0A]))"
  by (induction cm arbitrary: w)
     (simp_all add: httpError_def writeBody_def writeHeader_def Let_def replicate_append_same
        split: option.splits)

lemma fold_report_status:
  "status (fold (\<lambda>e w. if failed (Db (snd e)) then httpError w msg 500 else w) cm w) =
     (if filter (\<lambda>e. failed (Db (snd e))) cm = [] then status w
      else case status w of None \<Rightarrow> Some 500 | Some c \<Rightarrow> Some c)"
  by (induction cm arbitrary: w)
     (auto simp: httpError_def writeBody_def writeHeader_def Let_def split: option.splits)

lemma fold_report_none:
  "\<forall>e\<in>set cm. \<not> failed (Db (snd e)) \<Longrightarrow>
   fold (\<lambda>e w. if failed (Db (snd e)) then httpError w msg 500 else w) cm w = w"
  by (induction cm arbitrary: w) auto

lemma mset_Mac_assemble:
  "mset (map Mac (snd (assemble parse now cm w))) = mset (map fst cm)"
proof -
  have "mset (map Mac (sort_key Mac xs)) = mset (map Mac xs)" for xs :: "SensorData list"
    by (metis mset_map mset_sort)
  then show ?thesis unfolding assemble_snd by (simp add: multiset.map_comp comp_def)
qed

section \<open>The claims\<close>

subsection \<open>C2: the absolute humidity\<close>

text \<open>
  C2, as stated, fails: \<open>calcAbsHum\<close> rounds ten times the value of the formula and
  divides by one. At a humidity of 20.62 % and 0 degrees the formula gives about 1.00002;
  the function returns 10, and the nearest whole number is 1.
\<close>

theorem calcAbsHum_not_nearest_unit:
  "calcAbsHum (Fin 20.62) (Fin 0) = Fin 10 \<and> roundInt (absoluteHumidity 20.62 0) = 1"
  by (simp add: calcAbsHum_def absoluteHumidity_def Let_def roundInt_def Trunc_def)

text \<open>
  C2, amended. On the sensor's range, a humidity of \<open>hr / 100\<close> and a temperature of
  \<open>tr / 100\<close> for integers \<open>0 \<le> hr \<le> 10000\<close> and \<open>-4000 \<le> tr \<le> 6000\<close>,
  \<open>calcAbsHum\<close> returns an integer \<open>n\<close>: the value \<open>13.2471 * exp (17.67*t /
  (t + 243.5)) * h / (273.15 + t)\<close> times ten, rounded to the nearest integer with a
  half rounded away from zero.
\<close>

theorem calcAbsHum_tenths:
  assumes "0 \<le> hr" and "hr \<le> 10000" and "- 4000 \<le> tr" and "tr \<le> 6000"
  shows "\<exists>n::int. calcAbsHum (Fin (of_int hr / 100)) (Fin (of_int tr / 100)) = Fin (of_int n)
           \<and> \<bar>of_int n - absoluteHumidity (of_int hr / 100) (of_int tr / 100) * 10\<bar> \<le> 1 / 2
           \<and> (\<bar>of_int n - absoluteHumidity (of_int hr / 100) (of_int tr / 100) * 10\<bar> = 1 / 2
                \<longrightarrow> \<bar>absoluteHumidity (of_int hr / 100) (of_int tr / 100) * 10\<bar>
                      < \<bar>of_int n\<bar>)"
proof -
  define t :: real where "t = of_int tr / 100"
  define h :: real where "h = of_int hr / 100"
  have "- 40 \<le> t" using assms(3) unfolding t_def by simp
  then have d: "t + 243.5 \<noteq> 0" "273.15 + t \<noteq> 0" by simp_all
  have "calcAbsHum (Fin h) (Fin t) = Fin (of_int (roundInt (absoluteHumidity h t * 10)))"
    using d by (simp add: calcAbsHum_def absoluteHumidity_def Let_def)
  then show ?thesis
    using roundInt_near [of "absoluteHumidity h t * 10"]
      roundInt_tie [of "absoluteHumidity h t * 10"]
    unfolding t_def h_def by blast
qed

theorem calcAbsHum_tenths_witness:
  "(0::int) \<le> 4523 \<and> (4523::int) \<le> 10000 \<and> (- 4000::int) \<le> 2150 \<and> (2150::int) \<le> 6000
   \<and> (\<exists>n::int. calcAbsHum (Fin (of_int 4523 / 100)) (Fin (of_int 2150 / 100)) = Fin (of_int n)
           \<and> \<bar>of_int n - absoluteHumidity (of_int 4523 / 100) (of_int 2150 / 100) * 10\<bar>
                \<le> 1 / 2
           \<and> (\<bar>of_int n - absoluteHumidity (of_int 4523 / 100) (of_int 2150 / 100) * 10\<bar>
                  = 1 / 2
                \<longrightarrow> \<bar>absoluteHumidity (of_int 4523 / 100) (of_int 2150 / 100) * 10\<bar>
                      < \<bar>of_int n\<bar>))"
proof -
  have a: "(0::int) \<le> 4523" and b: "(4523::int) \<le> 10000"
    and c: "(- 4000::int) \<le> 2150" and d: "(2150::int) \<le> 6000" by simp_all
  from calcAbsHum_tenths [OF a b c d] a b c d show ?thesis by (intro conjI)
qed

subsection \<open>C3: a failing query\<close>

text \<open>
  C3, as stated, fails. With two devices whose queries both fail, the handler reports
  the error twice, each time with the same text, which names no device; it does not stop,
  and the template is executed on a record for each device.
\<close>

theorem loadSensorData_continues_after_error:
  "loadSensorData (Some (\<lambda>data. True)) (\<lambda>ts. None) (\<lambda>mac. 0)
     [(''b1'', \<lparr>Config.Loc = ''bath'', Db = ScanError zeroSample\<rparr>),
      (''a2'', \<lparr>Config.Loc = ''attic'', Db = ScanError zeroSample\<rparr>)]
     \<lparr>status = None, body = []\<rparr>
   = Some \<lparr>status = Some 500,
           body = [Text (''Data could not be loaded'' @ [CHR 0x0A]),
                   Text (''Data could not be loaded'' @ [CHR 0x0A]),
                   Rendered
                    [derive (\<lambda>ts. None) 0 ''a2''
                       \<lparr>Config.Loc = ''attic'', Db = ScanError zeroSample\<rparr>,
                     derive (\<lambda>ts. None) 0 ''b1''
                       \<lparr>Config.Loc = ''bath'', Db = ScanError zeroSample\<rparr>]]\<rparr>"
  by (simp add: loadSensorData_def assemble_def sortSlice_def httpError_def writeBody_def
      writeHeader_def Let_def)

text \<open>
  C3, amended. On a fresh response: if the query of any device fails, the failure is
  signalled with status 500 and the fixed text \<open>Data could not be loaded\<close>, which does
  not name the device; if every query succeeds, nothing is signalled and the records
  carry the keys of the configured devices, each exactly once.
\<close>

theorem assemble_failure_signal:
  assumes "status w = None" and "body w = []"
  shows "((\<exists>e\<in>set cm. failed (Db (snd e))) \<longrightarrow>
            status (fst (assemble parse now cm w)) = Some 500
          \<and> set (body (fst (assemble parse now cm w)))
              = {Text (''Data could not be loaded'' @ [CHR 0x0A])})
       \<and> ((\<forall>e\<in>set cm. \<not> failed (Db (snd e))) \<longrightarrow>
            fst (assemble parse now cm w) = w
          \<and> mset (map Mac (snd (assemble parse now cm w))) = mset (map fst cm))"
proof -
  have e: "(filter (\<lambda>e. failed (Db (snd e))) cm = []) = (\<not> (\<exists>e\<in>set cm. failed (Db (snd e))))"
    by (simp add: filter_empty_conv)
  have "\<exists>e\<in>set cm. failed (Db (snd e)) \<Longrightarrow>
      set (body (fst (assemble parse now cm w)))
        = {Text (''Data could not be loaded'' @ [CHR 0x0A])}"
    using assms(2) e by (simp add: assemble_fst fold_report_body set_replicate_conv_if)
  moreover have "\<exists>e\<in>set cm. failed (Db (snd e)) \<Longrightarrow>
      status (fst (assemble parse now cm w)) = Some 500"
    using assms(1) e by (simp add: assemble_fst fold_report_status)
  moreover have "\<forall>e\<in>set cm. \<not> failed (Db (snd e)) \<Longrightarrow> fst (assemble parse now cm w) = w"
    by (simp add: assemble_fst fold_report_none)
  ultimately show ?thesis using mset_Mac_assemble [of parse now cm w] by blast
qed

theorem assemble_failure_signal_witness:
  "status \<lparr>status = None, body = []\<rparr> = None \<and> body \<lparr>status = None, body = []\<rparr> = []
   \<and> (\<exists>e\<in>set [(''b1'', \<lparr>Config.Loc = ''bath'', Db = ScanError zeroSample\<rparr>),
                (''a2'', \<lparr>Config.Loc = ''attic'', Db = Scanned zeroSample\<rparr>)].
        failed (Db (snd e)))
   \<and> status (fst (assemble (\<lambda>ts. None) (\<lambda>mac. 0)
        [(''b1'', \<lparr>Config.Loc = ''bath'', Db = ScanError zeroSample\<rparr>),
         (''a2'', \<lparr>Config.Loc = ''attic'', Db = Scanned zeroSample\<rparr>)]
        \<lparr>status = None, body = []\<rparr>))
      = Some 500
   \<and> set (body (fst (assemble (\<lambda>ts. None) (\<lambda>mac. 0)
        [(''b1'', \<lparr>Config.Loc = ''bath'', Db = ScanError zeroSample\<rparr>),
         (''a2'', \<lparr>Config.Loc = ''attic'', Db = Scanned zeroSample\<rparr>)]
        \<lparr>status = None, body = []\<rparr>)))
      = {Text (''Data could not be loaded'' @ [CHR 0x0A])}
   \<and> list_all (\<lambda>e. \<not> failed (Db (snd e)))
        [(''b1'', \<lparr>Config.Loc = ''bath'', Db = Scanned zeroSample\<rparr>),
         (''a2'', \<lparr>Config.Loc = ''attic'', Db = Scanned zeroSample\<rparr>)]
   \<and> fst (assemble (\<lambda>ts. None) (\<lambda>mac. 0)
        [(''b1'', \<lparr>Config.Loc = ''bath'', Db = Scanned zeroSample\<rparr>),
         (''a2'', \<lparr>Config.Loc = ''attic'', Db = Scanned zeroSample\<rparr>)]
        \<lparr>status = None, body = []\<rparr>)
      = \<lparr>status = None, body = []\<rparr>
   \<and> mset (map Mac (snd (assemble (\<lambda>ts. None) (\<lambda>mac. 0)
        [(''b1'', \<lparr>Config.Loc = ''bath'', Db = Scanned zeroSample\<rparr>),
         (''a2'', \<lparr>Config.Loc = ''attic'', Db = Scanned zeroSample\<rparr>)]
        \<lparr>status = None, body = []\<rparr>)))
      = mset [''b1'', ''a2'']"
proof -
  have s: "status \<lparr>status = None, body = []\<rparr> = None"
    and b: "body \<lparr>status = None, body = []\<rparr> = []" by simp_all
  show ?thesis
    using s b
      assemble_failure_signal [OF s b, where parse = "\<lambda>ts. None"
        and now = "\<lambda>mac. 0" and cm =
        "[(''b1'', \<lparr>Config.Loc = ''bath'', Db = ScanError zeroSample\<rparr>),
          (''a2'', \<lparr>Config.Loc = ''attic'', Db = Scanned zeroSample\<rparr>)]"]
      assemble_failure_signal [OF s b, where parse = "\<lambda>ts. None"
        and now = "\<lambda>mac. 0" and cm =
        "[(''b1'', \<lparr>Config.Loc = ''bath'', Db = Scanned zeroSample\<rparr>),
          (''a2'', \<lparr>Config.Loc = ''attic'', Db = Scanned zeroSample\<rparr>)]"]
    by simp
qed

subsection \<open>C4: the battery bands\<close>

text \<open>
  C4. For an integer percentage \<open>p\<close> from 0 to 100 held in the \<open>int8\<close> field, the icon
  is that of exactly one band: the red empty battery (CRITICAL) exactly for \<open>p < 5\<close>, the
  yellow empty battery (LOW) for \<open>5 \<le> p < 15\<close>, the quarter for \<open>15 \<le> p < 35\<close>, the
  half for \<open>35 \<le> p < 65\<close>, the three quarters for \<open>65 \<le> p < 85\<close>, and the green full
  battery (FULL) for \<open>85 \<le> p\<close>.
\<close>

theorem batteryIcon_partition:
  assumes "0 \<le> p" and "p \<le> 100"
  shows "(batteryIcon (word_of_int p) = ''fa-battery-empty red'' \<longleftrightarrow> p < 5)
       \<and> (batteryIcon (word_of_int p) = ''fa-battery-empty yellow'' \<longleftrightarrow> 5 \<le> p \<and> p < 15)
       \<and> (batteryIcon (word_of_int p) = ''fa-battery-quarter'' \<longleftrightarrow> 15 \<le> p \<and> p < 35)
       \<and> (batteryIcon (word_of_int p) = ''fa-battery-half'' \<longleftrightarrow> 35 \<le> p \<and> p < 65)
       \<and> (batteryIcon (word_of_int p) = ''fa-battery-three-quarters'' \<longleftrightarrow> 65 \<le> p \<and> p < 85)
       \<and> (batteryIcon (word_of_int p) = ''fa-battery-full green'' \<longleftrightarrow> 85 \<le> p)"
proof -
  have "sint (word_of_int p :: 8 word) = p" using assms by (simp add: sint_percent)
  then show ?thesis by (simp add: batteryIcon_def word_sless_alt)
qed

theorem batteryIcon_partition_witness:
  "(0::int) \<le> 4 \<and> (4::int) \<le> 100 \<and> batteryIcon 4 = ''fa-battery-empty red''
   \<and> batteryIcon 5 = ''fa-battery-empty yellow''
   \<and> batteryIcon 34 = ''fa-battery-quarter''
   \<and> batteryIcon 35 = ''fa-battery-half''"
  using batteryIcon_partition [of 4] batteryIcon_partition [of 5]
    batteryIcon_partition [of 34] batteryIcon_partition [of 35]
  by simp

subsection \<open>C5: the freshness label\<close>

text \<open>
  C5. For a non-negative number \<open>e\<close> of elapsed seconds the label is \<open>Up to date\<close>
  below 60; below 3600 it is \<open>N Minute(s) ago\<close> with \<open>N = e div 60\<close>; below 86400 it is
  \<open>N Hour(s) ago\<close> with \<open>N = e div 3600\<close>; otherwise it is \<open>N Day(s)\<close> with
  \<open>N = e div 86400\<close> and no \<open>ago\<close>. The unit has the suffix \<open>s\<close> unless \<open>N = 1\<close>.
\<close>

theorem relativeLabel_bands:
  assumes "0 \<le> e"
  shows "relativeLabel e =
    (if e < 60 then ''Up to date''
     else if e < 3600 then
       sprintD (e div 60) @ '' Minute'' @ (if e div 60 = 1 then [] else ''s'') @ '' ago''
     else if e < 86400 then
       sprintD (e div 3600) @ '' Hour'' @ (if e div 3600 = 1 then [] else ''s'') @ '' ago''
     else sprintD (e div 86400) @ '' Day'' @ (if e div 86400 = 1 then [] else ''s''))"
proof -
  have m: "quo e 60 = e div 60" using assms by (simp add: quo_nonneg)
  have h: "quo (e div 60) 60 = e div 3600"
    using assms by (simp add: quo_nonneg zdiv_zmult2_eq [symmetric])
  have d: "quo (e div 3600) 24 = e div 86400"
    using assms by (simp add: quo_nonneg zdiv_zmult2_eq [symmetric])
  have c1: "(e div 60 < 60) = (e < 3600)" by linarith
  have c2: "(e div 3600 < 24) = (e < 86400)" by linarith
  show ?thesis
    by (simp add: relativeLabel_def Let_def m h d c1 c2 plural_def)
qed

theorem relativeLabel_bands_witness:
  "(0::int) \<le> 59 \<and> relativeLabel 0 = ''Up to date'' \<and> relativeLabel 59 = ''Up to date''
   \<and> relativeLabel 60 = ''1 Minute ago'' \<and> relativeLabel 119 = ''1 Minute ago''
   \<and> relativeLabel 120 = ''2 Minutes ago'' \<and> relativeLabel 3600 = ''1 Hour ago''
   \<and> relativeLabel 86400 = ''1 Day''"
  using relativeLabel_bands [of 0] relativeLabel_bands [of 59] relativeLabel_bands [of 60]
    relativeLabel_bands [of 119] relativeLabel_bands [of 120] relativeLabel_bands [of 3600]
    relativeLabel_bands [of 86400]
  by (simp add: sprintD_def digits.simps)

lemma Mac_assemble: "map Mac (snd (assemble parse now cm w)) = sort (map fst cm)"
proof (rule properties_for_sort [symmetric])
  show "mset (map Mac (snd (assemble parse now cm w))) = mset (map fst cm)"
    by (rule mset_Mac_assemble)
  show "sorted (map Mac (snd (assemble parse now cm w)))"
    unfolding assemble_snd by (rule sorted_sort_key)
qed

subsection \<open>C6: the order of the result\<close>

text \<open>
  C6. Take two runs over the same device keys, the keys distinct: whatever the order in
  which the map is iterated, whatever the queries yield and whatever the clock shows,
  the records handed to the template carry the same sequence of keys; it is strictly
  ascending in the lexicographic order of the bytes and holds exactly the configured
  keys.
\<close>

theorem assemble_sorted:
  assumes "distinct (map fst cm)" and "mset (map fst cm') = mset (map fst cm)"
  shows "map Mac (snd (assemble parse' now' cm' w')) = map Mac (snd (assemble parse now cm w))
       \<and> sorted_wrt (<) (map Mac (snd (assemble parse now cm w)))
       \<and> set (map Mac (snd (assemble parse now cm w))) = fst ` set cm"
proof -
  have "sort (map fst cm') = sort (map fst cm)"
  proof (rule properties_for_sort)
    show "mset (sort (map fst cm)) = mset (map fst cm')" using assms(2) by simp
    show "sorted (sort (map fst cm))" by simp
  qed
  moreover have "sorted_wrt (<) (sort (map fst cm))"
    unfolding strict_sorted_iff using assms(1) by simp
  moreover have "set (sort (map fst cm)) = fst ` set cm" by simp
  ultimately show ?thesis by (simp only: Mac_assemble)
qed

text \<open>The keys \<open>b1\<close>, \<open>a2\<close>, \<open>c0\<close> come out as \<open>a2\<close>, \<open>b1\<close>, \<open>c0\<close>, also when the map
  is iterated as \<open>c0\<close>, \<open>b1\<close>, \<open>a2\<close>, the first query fails and the clock has moved.\<close>

theorem assemble_sorted_witness:
  "distinct (map fst
      [(''b1'', \<lparr>Config.Loc = ''bath'', Db = Scanned zeroSample\<rparr>),
       (''a2'', \<lparr>Config.Loc = ''attic'', Db = Scanned zeroSample\<rparr>),
       (''c0'', \<lparr>Config.Loc = ''cellar'', Db = Scanned zeroSample\<rparr>)])
   \<and> mset (map fst
        [(''c0'', \<lparr>Config.Loc = ''cellar'', Db = ScanError zeroSample\<rparr>),
         (''b1'', \<lparr>Config.Loc = ''bath'', Db = Scanned zeroSample\<rparr>),
         (''a2'', \<lparr>Config.Loc = ''attic'', Db = Scanned zeroSample\<rparr>)])
     = mset (map fst
        [(''b1'', \<lparr>Config.Loc = ''bath'', Db = Scanned zeroSample\<rparr>),
         (''a2'', \<lparr>Config.Loc = ''attic'', Db = Scanned zeroSample\<rparr>),
         (''c0'', \<lparr>Config.Loc = ''cellar'', Db = Scanned zeroSample\<rparr>)])
   \<and> map Mac (snd (assemble (\<lambda>ts. None) (\<lambda>mac. 7)
        [(''c0'', \<lparr>Config.Loc = ''cellar'', Db = ScanError zeroSample\<rparr>),
         (''b1'', \<lparr>Config.Loc = ''bath'', Db = Scanned zeroSample\<rparr>),
         (''a2'', \<lparr>Config.Loc = ''attic'', Db = Scanned zeroSample\<rparr>)]
        \<lparr>status = None, body = []\<rparr>))
     = map Mac (snd (assemble (\<lambda>ts. None) (\<lambda>mac. 0)
        [(''b1'', \<lparr>Config.Loc = ''bath'', Db = Scanned zeroSample\<rparr>),
         (''a2'', \<lparr>Config.Loc = ''attic'', Db = Scanned zeroSample\<rparr>),
         (''c0'', \<lparr>Config.Loc = ''cellar'', Db = Scanned zeroSample\<rparr>)]
        \<lparr>status = None, body = []\<rparr>))
   \<and> map Mac (snd (assemble (\<lambda>ts. None) (\<lambda>mac. 0)
        [(''b1'', \<lparr>Config.Loc = ''bath'', Db = Scanned zeroSample\<rparr>),
         (''a2'', \<lparr>Config.Loc = ''attic'', Db = Scanned zeroSample\<rparr>),
         (''c0'', \<lparr>Config.Loc = ''cellar'', Db = Scanned zeroSample\<rparr>)]
        \<lparr>status = None, body = []\<rparr>))
     = [''a2'', ''b1'', ''c0'']"
proof -
  let ?b = "(''b1'', \<lparr>Config.Loc = ''bath'', Db = Scanned zeroSample\<rparr>)"
  let ?a = "(''a2'', \<lparr>Config.Loc = ''attic'', Db = Scanned zeroSample\<rparr>)"
  let ?c = "(''c0'', \<lparr>Config.Loc = ''cellar'', Db = Scanned zeroSample\<rparr>)"
  let ?c' = "(''c0'', \<lparr>Config.Loc = ''cellar'', Db = ScanError zeroSample\<rparr>)"
  let ?w = "\<lparr>status = None, body = []\<rparr>"
  have d: "distinct (map fst [?b, ?a, ?c])" by simp
  have m: "mset (map fst [?c', ?b, ?a]) = mset (map fst [?b, ?a, ?c])" by simp
  have e: "map Mac (snd (assemble (\<lambda>ts. None) (\<lambda>mac. 0) [?b, ?a, ?c] ?w))
             = [''a2'', ''b1'', ''c0'']"
    by (simp add: assemble_def sortSlice_def)
  from assemble_sorted [OF d m, where parse' = "\<lambda>ts. None" and now' = "\<lambda>mac. 7"
      and w' = ?w and parse = "\<lambda>ts. None" and now = "\<lambda>mac. 0" and w = ?w]
  have "map Mac (snd (assemble (\<lambda>ts. None) (\<lambda>mac. 7) [?c', ?b, ?a] ?w))
      = map Mac (snd (assemble (\<lambda>ts. None) (\<lambda>mac. 0) [?b, ?a, ?c] ?w))"
    by (rule conjunct1)
  with d m e show ?thesis by (intro conjI)
qed

subsection \<open>C7: the dew point and the temperature\<close>




subsection \<open>C8: a humidity of zero or less\<close>

text \<open>
  C8, as stated, fails: nothing checks the humidity. For a device whose latest row has
  the humidity 0, the handler signals no error and executes the template on a record for
  the device, whose dew point is \<open>NaN\<close>.
\<close>

theorem loadSensorData_zero_humidity:
  "loadSensorData (Some (\<lambda>data. True)) (\<lambda>ts. None) (\<lambda>mac. 0)
     [(''a2'', \<lparr>Config.Loc = ''attic'',
               Db = Scanned \<lparr>temp = Fin 2000, humidity = Fin 0, battery_mv = 3000,
                             battery_level = 90, timestamp = []\<rparr>\<rparr>)]
     \<lparr>status = None, body = []\<rparr>
   = Some \<lparr>status = Some 200,
           body = [Rendered
                    [\<lparr>Temp = Fin 20, Humidity = Fin 0, BatteryMV = 3000, BatteryLevel = 90,
                      Timestamp = [], DewPoint = NaN, AbsHum = Fin 0,
                      BatteryIcon = ''fa-battery-full green'', DewPointText = ''Dew point'',
                      Mac = ''a2'', Loc = ''attic'', TimeRelative = []\<rparr>]]\<rparr>"
  by (simp add: loadSensorData_def assemble_def sortSlice_def writeBody_def writeHeader_def
      Let_def derive_def calcDewPoint_def calcAbsHum_def fsub_def infTimes_def
      batteryIcon_def word_sless_alt timeRelative_def roundInt_def Trunc_def)

text \<open>
  C8, amended. For a device whose query succeeds with a finite temperature and a finite
  humidity of zero or less, the loop signals no error and appends the record of the
  device; the dew point of that record is \<open>NaN\<close>.
\<close>

theorem derive_nonpositive_humidity:
  assumes "Db config = Scanned s" and "humidity s = Fin h" and "h \<le> 0" and "temp s = Fin t"
  shows "DewPoint (derive parse (now mac) mac config) = NaN
       \<and> collect parse now [(mac, config)] (w, data) =
           (w, data @ [derive parse (now mac) mac config])"
proof -
  have "h / 100 \<le> 0" using assms(3) by simp
  then have "calcDewPoint (Fin (h / 100)) (Fin (t / 100)) = NaN" by (rule calcDewPoint_nonpos)
  then show ?thesis using assms by (simp add: derive_def Let_def)
qed

theorem derive_nonpositive_humidity_witness:
  "Db \<lparr>Config.Loc = ''attic'',
       Db = Scanned \<lparr>temp = Fin 2000, humidity = Fin (- 150), battery_mv = 3000,
                     battery_level = 90, timestamp = []\<rparr>\<rparr>
     = Scanned \<lparr>temp = Fin 2000, humidity = Fin (- 150), battery_mv = 3000,
                battery_level = 90, timestamp = []\<rparr>
   \<and> (- 150::real) \<le> 0
   \<and> DewPoint (derive (\<lambda>ts. None) 0 ''a2''
        \<lparr>Config.Loc = ''attic'',
         Db = Scanned \<lparr>temp = Fin 2000, humidity = Fin (- 150), battery_mv = 3000,
                       battery_level = 90, timestamp = []\<rparr>\<rparr>) = NaN
   \<and> fst (collect (\<lambda>ts. None) (\<lambda>mac. 0)
        [(''a2'', \<lparr>Config.Loc = ''attic'',
                  Db = Scanned \<lparr>temp = Fin 2000, humidity = Fin (- 150), battery_mv = 3000,
                                battery_level = 90, timestamp = []\<rparr>\<rparr>)]
        (\<lparr>status = None, body = []\<rparr>, [])) = \<lparr>status = None, body = []\<rparr>"
proof -
  let ?s = "\<lparr>temp = Fin 2000, humidity = Fin (- 150), battery_mv = 3000,
             battery_level = 90, timestamp = []\<rparr>"
  let ?c = "\<lparr>Config.Loc = ''attic'', Db = Scanned ?s\<rparr>"
  have a: "Db ?c = Scanned ?s" by simp
  have b: "humidity ?s = Fin (- 150)" by simp
  have c: "(- 150::real) \<le> 0" by simp
  have d: "temp ?s = Fin 2000" by simp
  from derive_nonpositive_humidity [OF a b c d, of "\<lambda>ts. None" "\<lambda>mac. 0" "''a2''"
      "\<lparr>status = None, body = []\<rparr>" "[]"]
  show ?thesis using a c by simp
qed

subsection \<open>C9: a timestamp that does not parse\<close>

text \<open>
  C9. For every device of the configuration map whose stored timestamp does not parse,
  whatever the queries of the run yield: the record of the device is among the data handed
  to the template and its label is the stored timestamp, unchanged; what the loop writes to
  the response is the same with any other parser and clock, so the parse error is never
  signalled, and with all queries successful the response is untouched; and the handler
  returns a response whenever the template is there.
\<close>

theorem unparsable_timestamp:
  assumes "(mac, config) \<in> set cm" and "parse (timestamp (sample (Db config))) = None"
  shows "derive parse (now mac) mac config \<in> set (snd (assemble parse now cm w))
       \<and> TimeRelative (derive parse (now mac) mac config) = timestamp (sample (Db config))
       \<and> fst (assemble parse now cm w) = fst (assemble parse' now' cm w)
       \<and> ((\<forall>e\<in>set cm. \<not> failed (Db (snd e))) \<longrightarrow> fst (assemble parse now cm w) = w)
       \<and> loadSensorData (Some execute) parse now cm w \<noteq> None"
proof -
  have "derive parse (now (fst (mac, config))) (fst (mac, config)) (snd (mac, config))
      \<in> set (snd (assemble parse now cm w))"
    unfolding assemble_snd using assms(1) by (simp only: set_sort set_map) (rule imageI)
  then have "derive parse (now mac) mac config \<in> set (snd (assemble parse now cm w))"
    by simp
  moreover have "TimeRelative (derive parse (now mac) mac config)
      = timestamp (sample (Db config))"
    using assms(2) by (simp add: derive_def Let_def timeRelative_def)
  moreover have "fst (assemble parse now cm w) = fst (assemble parse' now' cm w)"
    by (simp only: assemble_fst)
  moreover have "\<forall>e\<in>set cm. \<not> failed (Db (snd e)) \<Longrightarrow> fst (assemble parse now cm w) = w"
    by (simp add: assemble_fst fold_report_none)
  moreover have "loadSensorData (Some execute) parse now cm w \<noteq> None"
    by (simp add: loadSensorData_def Let_def split: prod.split)
  ultimately show ?thesis by blast
qed

text \<open>A stored timestamp that is no date, with a parser that accepts one date only.\<close>

theorem unparsable_timestamp_witness:
  "(''a2'', \<lparr>Config.Loc = ''attic'', Db = Scanned (zeroSample\<lparr>timestamp := ''not a date''\<rparr>)\<rparr>)
     \<in> set [(''a2'', \<lparr>Config.Loc = ''attic'',
                       Db = Scanned (zeroSample\<lparr>timestamp := ''not a date''\<rparr>)\<rparr>)]
   \<and> [''2030-01-01T00:00:00Z'' \<mapsto> (1893456000::int)] ''not a date'' = None
   \<and> derive [''2030-01-01T00:00:00Z'' \<mapsto> (1893456000::int)] 0 ''a2''
        \<lparr>Config.Loc = ''attic'', Db = Scanned (zeroSample\<lparr>timestamp := ''not a date''\<rparr>)\<rparr>
      \<in> set (snd (assemble [''2030-01-01T00:00:00Z'' \<mapsto> (1893456000::int)] (\<lambda>mac. 0)
          [(''a2'', \<lparr>Config.Loc = ''attic'',
                    Db = Scanned (zeroSample\<lparr>timestamp := ''not a date''\<rparr>)\<rparr>)]
          \<lparr>status = None, body = []\<rparr>))
   \<and> TimeRelative (derive [''2030-01-01T00:00:00Z'' \<mapsto> (1893456000::int)] 0 ''a2''
        \<lparr>Config.Loc = ''attic'', Db = Scanned (zeroSample\<lparr>timestamp := ''not a date''\<rparr>)\<rparr>)
      = ''not a date''
   \<and> list_all (\<lambda>e. \<not> failed (Db (snd e)))
        [(''a2'', \<lparr>Config.Loc = ''attic'',
                  Db = Scanned (zeroSample\<lparr>timestamp := ''not a date''\<rparr>)\<rparr>)]
   \<and> fst (assemble [''2030-01-01T00:00:00Z'' \<mapsto> (1893456000::int)] (\<lambda>mac. 0)
        [(''a2'', \<lparr>Config.Loc = ''attic'',
                  Db = Scanned (zeroSample\<lparr>timestamp := ''not a date''\<rparr>)\<rparr>)]
        \<lparr>status = None, body = []\<rparr>) = \<lparr>status = None, body = []\<rparr>
   \<and> loadSensorData (Some (\<lambda>data. True)) [''2030-01-01T00:00:00Z'' \<mapsto> (1893456000::int)]
        (\<lambda>mac. 0)
        [(''a2'', \<lparr>Config.Loc = ''attic'',
                  Db = Scanned (zeroSample\<lparr>timestamp := ''not a date''\<rparr>)\<rparr>)]
        \<lparr>status = None, body = []\<rparr> \<noteq> None"
proof -
  let ?c = "\<lparr>Config.Loc = ''attic'', Db = Scanned (zeroSample\<lparr>timestamp := ''not a date''\<rparr>)\<rparr>"
  let ?cm = "[(''a2'', ?c)]"
  let ?p = "[''2030-01-01T00:00:00Z'' \<mapsto> (1893456000::int)]"
  let ?w = "\<lparr>status = None, body = []\<rparr>"
  have a: "(''a2'', ?c) \<in> set ?cm" by simp
  have ts: "timestamp (sample (Db ?c)) = ''not a date''" by simp
  have p: "?p ''not a date'' = None" by simp
  have p': "?p (timestamp (sample (Db ?c))) = None" unfolding ts by (rule p)
  have l: "list_all (\<lambda>e. \<not> failed (Db (snd e))) ?cm" by simp
  have l': "\<forall>e\<in>set ?cm. \<not> failed (Db (snd e))" by simp
  note u = unparsable_timestamp [where mac = "''a2''" and config = ?c and cm = ?cm
      and parse = ?p and now = "\<lambda>mac. 0" and w = ?w and parse' = ?p and now' = "\<lambda>mac. 0"
      and execute = "\<lambda>data. True", OF a p']
  have u1: "derive ?p 0 ''a2'' ?c \<in> set (snd (assemble ?p (\<lambda>mac. 0) ?cm ?w))"
    using u by (rule conjunct1)
  have u2: "TimeRelative (derive ?p 0 ''a2'' ?c) = ''not a date''"
    using u ts by simp
  have u4: "fst (assemble ?p (\<lambda>mac. 0) ?cm ?w) = ?w"
    using u l' by blast
  have u5: "loadSensorData (Some (\<lambda>data. True)) ?p (\<lambda>mac. 0) ?cm ?w \<noteq> None"
    using u by blast
  from a p u1 u2 l u4 u5 show ?thesis by (intro conjI)
qed

subsection \<open>C10: a timestamp in the future\<close>

text \<open>
  C10. For a timestamp that parses to a time after the clock's, the difference of the
  two being within the range of an \<open>int64\<close>, the label of the record is \<open>Up to date\<close>.
\<close>

theorem future_timestamp:
  assumes "parse (timestamp (sample (Db config))) = Some unix"
    and "now < unix" and "unix - now \<le> 2 ^ 63"
  shows "TimeRelative (derive parse now mac config) = ''Up to date''"
proof -
  have "int64 (now - unix) = now - unix"
    using assms(2,3) by (simp add: int64_def)
  then show ?thesis
    using assms by (simp add: derive_def Let_def timeRelative_def relativeLabel_def)
qed

theorem future_timestamp_witness:
  "[''2030-01-01T00:00:00Z'' \<mapsto> (1893456000::int)]
     (timestamp (sample (Db \<lparr>Config.Loc = ''attic'',
        Db = Scanned (zeroSample\<lparr>timestamp := ''2030-01-01T00:00:00Z''\<rparr>)\<rparr>)))
     = Some 1893456000
   \<and> (1893455995::int) < 1893456000
   \<and> (1893456000::int) - 1893455995 \<le> 2 ^ 63
   \<and> TimeRelative (derive [''2030-01-01T00:00:00Z'' \<mapsto> (1893456000::int)] 1893455995 ''a2''
        \<lparr>Config.Loc = ''attic'',
         Db = Scanned (zeroSample\<lparr>timestamp := ''2030-01-01T00:00:00Z''\<rparr>)\<rparr>)
     = ''Up to date''"
proof -
  let ?p = "[''2030-01-01T00:00:00Z'' \<mapsto> (1893456000::int)]"
  let ?c = "\<lparr>Config.Loc = ''attic'',
             Db = Scanned (zeroSample\<lparr>timestamp := ''2030-01-01T00:00:00Z''\<rparr>)\<rparr>"
  have a: "?p (timestamp (sample (Db ?c))) = Some 1893456000" by simp
  have b: "(1893455995::int) < 1893456000" by simp
  have c: "(1893456000::int) - 1893455995 \<le> 2 ^ 63" by simp
  from future_timestamp [where parse = ?p and config = ?c and unix = 1893456000
      and now = 1893455995 and mac = "''a2''", OF a b c] a b c
  show ?thesis by (intro conjI)
qed

end
